theory Spec2Isabelle
  imports Main "HOL-Library.Word"
begin

section \<open>Go strings and the library functions the parser calls\<close>

text \<open>
  A Go string is a sequence of bytes, here a \<open>string\<close> (a list of 8-bit characters).
  The functions of package \<open>strings\<close> that the parser calls are written out on bytes.
  \<open>strings.TrimSpace\<close> and \<open>strings.Fields\<close> cut at Unicode white space
  (\<open>unicode.IsSpace\<close>): the six ASCII characters tab, line feed, vertical tab, form feed,
  carriage return and space, and the UTF-8 encodings of U+0085, U+00A0, U+1680,
  U+2000 to U+200A, U+2028, U+2029, U+202F, U+205F and U+3000. None of these encodings
  starts with a continuation byte, so reading the bytes from the left and taking a white
  space encoding wherever it starts marks the same bytes as Go's decoding by runes.
\<close>

definition byte :: "char \<Rightarrow> nat" where
  "byte c = of_char c"

definition isSpace1 :: "nat \<Rightarrow> bool" where
  "isSpace1 a = (a = 32 \<or> (9 \<le> a \<and> a \<le> 13))"

definition isSpace2 :: "nat \<Rightarrow> nat \<Rightarrow> bool" where
  "isSpace2 a b = (a = 194 \<and> (b = 133 \<or> b = 160))"

definition isSpace3 :: "nat \<Rightarrow> nat \<Rightarrow> nat \<Rightarrow> bool" where
  "isSpace3 a b c =
     ((a = 225 \<and> b = 154 \<and> c = 128) \<or>
      (a = 226 \<and> b = 128 \<and> ((128 \<le> c \<and> c \<le> 138) \<or> c = 168 \<or> c = 169 \<or> c = 175)) \<or>
      (a = 226 \<and> b = 129 \<and> c = 159) \<or>
      (a = 227 \<and> b = 128 \<and> c = 128))"

text \<open>The number of bytes of the white space character a string starts with; 0 when it
  starts with none.\<close>

fun spaceWidth :: "string \<Rightarrow> nat" where
  "spaceWidth (a # b # c # _) =
     (if isSpace1 (byte a) then 1
      else if isSpace2 (byte a) (byte b) then 2
      else if isSpace3 (byte a) (byte b) (byte c) then 3 else 0)"
| "spaceWidth [a, b] =
     (if isSpace1 (byte a) then 1 else if isSpace2 (byte a) (byte b) then 2 else 0)"
| "spaceWidth [a] = (if isSpace1 (byte a) then 1 else 0)"
| "spaceWidth [] = 0"

text \<open>Every byte with the mark saying whether it belongs to a white space character.
  The first argument counts the bytes still to skip inside a multi-byte one.\<close>

fun spaceMarks :: "nat \<Rightarrow> string \<Rightarrow> (char \<times> bool) list" where
  "spaceMarks _ [] = []"
| "spaceMarks (Suc k) (c # cs) = (c, True) # spaceMarks k cs"
| "spaceMarks 0 (c # cs) =
     (let w = spaceWidth (c # cs)
      in if w = 0 then (c, False) # spaceMarks 0 cs else (c, True) # spaceMarks (w - 1) cs)"

text \<open>\<open>strings.TrimSpace\<close>: all leading and trailing white space removed.\<close>

definition TrimSpace :: "string \<Rightarrow> string" where
  "TrimSpace s = map fst (rev (dropWhile snd (rev (dropWhile snd (spaceMarks 0 s)))))"

text \<open>\<open>strings.Fields\<close>: the maximal runs of bytes that are not white space, in order;
  no field is empty.\<close>

fun splitMarked :: "string \<Rightarrow> (char \<times> bool) list \<Rightarrow> string list" where
  "splitMarked cur [] = (if cur = [] then [] else [cur])"
| "splitMarked cur ((c, sp) # xs) =
     (if sp then (if cur = [] then [] else [cur]) @ splitMarked [] xs
      else splitMarked (cur @ [c]) xs)"

definition Fields :: "string \<Rightarrow> string list" where
  "Fields s = splitMarked [] (spaceMarks 0 s)"

definition HasPrefix :: "string \<Rightarrow> string \<Rightarrow> bool" where
  "HasPrefix s pre = (take (length pre) s = pre)"

definition TrimPrefix :: "string \<Rightarrow> string \<Rightarrow> string" where
  "TrimPrefix s pre = (if HasPrefix s pre then drop (length pre) s else s)"

text \<open>\<open>strings.Join\<close>.\<close>

fun strings_Join :: "string list \<Rightarrow> string \<Rightarrow> string" where
  "strings_Join [] sep = []"
| "strings_Join [x] sep = x"
| "strings_Join (x # y # ys) sep = x @ sep @ strings_Join (y # ys) sep"

section \<open>Counters\<close>

text \<open>
  \<open>strconv.ParseUint(s, 10, 64)\<close>, as the library computes it: the digits are folded
  from the left into \<open>n\<close>; the call fails with a range error when \<open>n\<close> has reached the
  cutoff \<open>maxUint64 / 10 + 1\<close> before a further digit, or when adding the digit passes
  \<open>maxUint64\<close>; it fails with a syntax error on the empty string and on a byte that is
  no digit. The unsigned 64-bit arithmetic is written on \<open>nat\<close> with both checks
  explicit; a result is below \<open>2 ^ 64\<close> and is returned as a 64-bit word.
\<close>

definition isDigit :: "char \<Rightarrow> bool" where
  "isDigit c = (48 \<le> byte c \<and> byte c \<le> 57)"

definition maxUint64 :: nat where
  "maxUint64 = 18446744073709551615"

definition cutoff64 :: nat where
  "cutoff64 = maxUint64 div 10 + 1"

fun ParseUint_loop :: "nat \<Rightarrow> string \<Rightarrow> nat option" where
  "ParseUint_loop n [] = Some n"
| "ParseUint_loop n (c # cs) =
     (if \<not> isDigit c then None
      else if cutoff64 \<le> n then None
      else (let n1 = n * 10 + (byte c - 48)
            in if maxUint64 < n1 then None else ParseUint_loop n1 cs))"

definition ParseUint :: "string \<Rightarrow> 64 word option" where
  "ParseUint s = (if s = [] then None else map_option word_of_nat (ParseUint_loop 0 s))"

text \<open>
  The pattern \<open>countersRegexp\<close>, \<^verbatim>\<open>^\[(\d+):(\d+)]$\<close>, matched against a whole field:
  \<open>FindStringSubmatch\<close> gives the two digit groups or nothing. \<^verbatim>\<open>\d\<close> is an ASCII digit
  and \<^verbatim>\<open>$\<close> the end of the text. A greedy group of digits stops at the first byte that
  is no digit, which must be the colon (the closing bracket for the second group).
\<close>

definition FindStringSubmatch :: "string \<Rightarrow> (string \<times> string) option" where
  "FindStringSubmatch field =
     (case field of
        [] \<Rightarrow> None
      | c # rest \<Rightarrow>
          if c \<noteq> CHR ''['' then None
          else (let d1 = takeWhile isDigit rest; r1 = dropWhile isDigit rest
                in if d1 = [] then None
                   else (case r1 of
                           [] \<Rightarrow> None
                         | c1 # rest1 \<Rightarrow>
                             if c1 \<noteq> CHR '':'' then None
                             else (let d2 = takeWhile isDigit rest1; r2 = dropWhile isDigit rest1
                                   in if d2 \<noteq> [] \<and> r2 = '']'' then Some (d1, d2) else None))))"

text \<open>\<open>parseCounters\<close>: \<open>None\<close> is the result with \<open>ok = false\<close>, whose numbers
  \<open>handleNewChain\<close> does not read.\<close>

definition parseCounters :: "string \<Rightarrow> (64 word \<times> 64 word) option" where
  "parseCounters field =
     (case FindStringSubmatch field of
        None \<Rightarrow> None
      | Some (d1, d2) \<Rightarrow>
          (case (ParseUint d1, ParseUint d2) of
             (Some packets, Some bytes) \<Rightarrow> Some (packets, bytes)
           | _ \<Rightarrow> None))"

section \<open>The data model\<close>

text \<open>
  The declarations of \<open>Tables\<close>, \<open>Table\<close>, \<open>Chain\<close> and \<open>Rule\<close> are read off their uses
  in the parser and its test: \<open>Tables\<close> is \<open>map[string]Table\<close>, \<open>Table\<close> is
  \<open>map[string]Chain\<close>, a \<open>Chain\<close> has \<open>Policy\<close>, \<open>Packets\<close>, \<open>Bytes\<close> and
  \<open>Rules []Rule\<close>, a \<open>Rule\<close> has \<open>Packets\<close>, \<open>Bytes\<close> and \<open>Rule\<close>. The fields of
  \<open>Rule\<close> carry the prefix \<open>Rule_\<close> here. A Go map value is either \<open>nil\<close> (\<open>None\<close>) or
  an allocated map (\<open>Some m\<close>): reading a key of the \<open>nil\<close> map gives the zero value,
  assigning to one panics. A \<open>nil\<close> slice is the empty list.
\<close>

record Rule =
  Rule_Packets :: "64 word"
  Rule_Bytes :: "64 word"
  Rule_Rule :: string

record Chain =
  Policy :: string
  Packets :: "64 word"
  Bytes :: "64 word"
  Rules :: "Rule list"

type_synonym Table = "(string \<rightharpoonup> Chain) option"

type_synonym Tables = "(string \<rightharpoonup> Table) option"

definition zeroChain :: Chain where
  "zeroChain = \<lparr>Policy = [], Packets = 0, Bytes = 0, Rules = []\<rparr>"

text \<open>The entries of a map value: none for the \<open>nil\<close> map, which reads as the empty
  map and is what \<open>make\<close> replaces it by before the first assignment.\<close>

definition entries :: "('k \<rightharpoonup> 'v) option \<Rightarrow> ('k \<rightharpoonup> 'v)" where
  "entries t = (case t of None \<Rightarrow> Map.empty | Some m \<Rightarrow> m)"

text \<open>\<open>t[name]\<close> for a \<open>Table\<close>: the zero \<open>Chain\<close> when the key is missing or the map
  is \<open>nil\<close>.\<close>

definition chainAt :: "Table \<Rightarrow> string \<Rightarrow> Chain" where
  "chainAt t name = (case entries t name of None \<Rightarrow> zeroChain | Some c \<Rightarrow> c)"

section \<open>Errors\<close>

text \<open>
  \<open>ParseError\<close> is the parser's error; \<open>joinError\<close> is the value \<open>errors.Join\<close>
  returns, which wraps its arguments that are not \<open>nil\<close>, in order, and is \<open>nil\<close> when
  all of them are; \<open>ReadError\<close> stands for whatever error the scanner reports. The Go
  \<open>int\<close> line number counts lines from 1 and is a \<open>nat\<close> here.
\<close>

datatype error =
  ParseError string nat string
| joinError "error list"
| ReadError string

definition errors_Join :: "error option list \<Rightarrow> error option" where
  "errors_Join errs =
     (let es = List.map_filter id errs in if es = [] then None else Some (joinError es))"

text \<open>The errors an error value wraps, from the left: what \<open>Unwrap() []error\<close> gives,
  followed down to the errors that wrap nothing.\<close>

fun wrapped :: "error \<Rightarrow> error list" where
  "wrapped (ParseError m n t) = [ParseError m n t]"
| "wrapped (ReadError m) = [ReadError m]"
| "wrapped (joinError es) = concat (map wrapped es)"

definition reported :: "error option \<Rightarrow> error list" where
  "reported e = (case e of None \<Rightarrow> [] | Some x \<Rightarrow> wrapped x)"

section \<open>The parser\<close>

text \<open>The only way the functions below leave a call without returning: the run-time
  panic of an assignment to an entry of a \<open>nil\<close> map. The indexing of \<open>fields\<close> in
  \<open>handleNewChain\<close> is guarded by the check of their number, and the pattern given to
  \<open>regexp.MustCompile\<close> is a valid constant.\<close>

datatype panic = AssignNilMap

record parser =
  result :: Tables
  currentTableName :: string
  currentTable :: Table
  line :: nat
  err :: "error option"

text \<open>\<open>parser{}\<close>.\<close>

definition parser0 :: parser where
  "parser0 = \<lparr>result = None, currentTableName = [], currentTable = None, line = 0, err = None\<rparr>"

definition flush :: "parser \<Rightarrow> parser" where
  "flush p =
     (if currentTableName p \<noteq> []
      then p\<lparr>result := Some ((entries (result p))(currentTableName p \<mapsto> currentTable p)),
             currentTableName := [],
             currentTable := None\<rparr>
      else p)"

definition handleNewChain :: "parser \<Rightarrow> string \<Rightarrow> parser" where
  "handleNewChain p l =
     (let fields = Fields l
      in if length fields \<noteq> 3
         then p\<lparr>err := errors_Join [err p, Some (ParseError ''expected 3 fields'' (line p) l)]\<rparr>
         else (let name = TrimPrefix (fields ! 0) '':''
               in case parseCounters (fields ! 2) of
                    None \<Rightarrow>
                      p\<lparr>err := errors_Join
                                 [err p, Some (ParseError ''expected [packets:bytes]'' (line p) l)]\<rparr>
                  | Some (packets, bytes) \<Rightarrow>
                      (let chain = \<lparr>Policy = fields ! 1, Packets = packets, Bytes = bytes,
                                    Rules = []\<rparr>
                       in p\<lparr>currentTable := Some ((entries (currentTable p))(name \<mapsto> chain))\<rparr>)))"

text \<open>
  The sub-parser of a rule line. Its declaration and its methods \<open>handleToken\<close> and
  \<open>flush\<close> are not among the sources; \<open>handleRule\<close> reads the fields \<open>countersOk\<close>,
  \<open>packets\<close>, \<open>bytes\<close>, \<open>chain\<close> and \<open>flags\<close> of the sub-parser after it has handled
  every token and flushed. \<open>handleRule\<close> therefore takes as a parameter the function
  from the tokens of the line to that final sub-parser, and what is proved of it holds
  for every such function.
\<close>

record ruleParser =
  countersOk :: bool
  packets :: "64 word"
  bytes :: "64 word"
  chain :: string
  flags :: "string list"

definition handleRule :: "(string list \<Rightarrow> ruleParser) \<Rightarrow> parser \<Rightarrow> string \<Rightarrow> panic + parser" where
  "handleRule tokenize p l =
     (let fields = Fields l;
          subParser = tokenize fields
      in if \<not> countersOk subParser
         then Inr (p\<lparr>err := errors_Join
                              [err p, Some (ParseError ''expected [packets:bytes]'' (line p) l)]\<rparr>)
         else if chain subParser = []
         then Inr (p\<lparr>err := errors_Join
                              [err p, Some (ParseError ''expected -A chain ...'' (line p) l)]\<rparr>)
         else (let r = \<lparr>Rule_Packets = packets subParser, Rule_Bytes = bytes subParser,
                        Rule_Rule = strings_Join (flags subParser) '' ''\<rparr>;
                   c = chainAt (currentTable p) (chain subParser)
               in if list_ex (\<lambda>rule. Rule_Rule rule = Rule_Rule r) (Rules c) then Inr p
                  else (case currentTable p of
                          None \<Rightarrow> Inl AssignNilMap
                        | Some m \<Rightarrow>
                            Inr (p\<lparr>currentTable :=
                                     Some (m(chain subParser \<mapsto> c\<lparr>Rules := Rules c @ [r]\<rparr>))\<rparr>))))"

definition handleLine :: "(string list \<Rightarrow> ruleParser) \<Rightarrow> parser \<Rightarrow> string \<Rightarrow> panic + parser" where
  "handleLine tokenize p0 raw =
     (let p = p0\<lparr>line := line p0 + 1\<rparr>;
          l = TrimSpace raw
      in if l = [] \<or> HasPrefix l ''#'' then Inr p
         else if l = ''COMMIT'' then Inr (flush p)
         else if TrimPrefix l ''*'' \<noteq> l then Inr ((flush p)\<lparr>currentTableName := TrimPrefix l ''*''\<rparr>)
         else if HasPrefix l '':'' then Inr (handleNewChain p l)
         else if HasPrefix l ''['' then handleRule tokenize p l
         else Inr (p\<lparr>err := errors_Join [err p, Some (ParseError ''unhandled line'' (line p) l)]\<rparr>))"

section \<open>The driver\<close>

text \<open>
  The input: the lines \<open>bufio.Scanner\<close> yields, in order, and the error it reports when
  it stops (\<open>None\<close> at the end of the stream). The loop hands every line to
  \<open>handleLine\<close>; a panic ends it.
\<close>

record stream =
  scanned :: "string list"
  scanErr :: "error option"

fun scan :: "(string list \<Rightarrow> ruleParser) \<Rightarrow> parser \<Rightarrow> string list \<Rightarrow> panic + parser" where
  "scan tokenize p [] = Inr p"
| "scan tokenize p (raw # rest) =
     (case handleLine tokenize p raw of
        Inl pn \<Rightarrow> Inl pn
      | Inr p' \<Rightarrow> scan tokenize p' rest)"

text \<open>
  \<open>slog.Error\<close> appends a record to the process-wide log, the only state outside the
  call that \<open>ParseIptablesSave\<close> touches. A record keeps the message and the error whose
  text is logged.
\<close>

datatype logRecord = LogError string error

text \<open>\<open>ParseIptablesSave\<close>: from the log before the call and the input to the pair
  returned and the log after the call, or to a panic.\<close>

definition ParseIptablesSave ::
  "(string list \<Rightarrow> ruleParser) \<Rightarrow> logRecord list \<Rightarrow> stream \<Rightarrow>
     panic + ((Tables \<times> error option) \<times> logRecord list)" where
  "ParseIptablesSave tokenize log r =
     (case scan tokenize parser0 (scanned r) of
        Inl pn \<Rightarrow> Inl pn
      | Inr p1 \<Rightarrow>
          (let p = flush p1
           in case err p of
                Some e \<Rightarrow> Inr ((None, Some e), log @ [LogError ''failed to parse iptables-save'' e])
              | None \<Rightarrow>
                  (case scanErr r of
                     Some e \<Rightarrow>
                       Inr ((None, Some e), log @ [LogError ''failed to read iptables-save'' e])
                   | None \<Rightarrow> Inr ((result p, None), log))))"

section \<open>The rule tokenizer\<close>

text \<open>
  Modelled from the spec: the rule tokenizer (type \<open>ruleParser\<close> with \<open>handleToken\<close> and
  \<open>flush\<close>) is missing from the sources. By the specification the first token is the
  counter token, parsed by the \<open>[packets:bytes]\<close> grammar, and the counters are
  resolved when it parses; among the remaining tokens the first \<open>-A\<close> that is followed
  by a token gives the target chain; every other token goes, in order, to the flags.
\<close>

fun collectTokens :: "string list \<Rightarrow> string \<times> string list" where
  "collectTokens [] = ([], [])"
| "collectTokens [t] = ([], [t])"
| "collectTokens (t # u # ts) =
     (if t = ''-A'' then (u, ts)
      else (let (c, fl) = collectTokens (u # ts) in (c, t # fl)))"

definition ruleTokens :: "string list \<Rightarrow> ruleParser" where
  "ruleTokens tokens =
     (case tokens of
        [] \<Rightarrow> \<lparr>countersOk = False, packets = 0, bytes = 0, chain = [], flags = []\<rparr>
      | t # ts \<Rightarrow>
          (let (c, fl) = collectTokens ts
           in case parseCounters t of
                None \<Rightarrow> \<lparr>countersOk = False, packets = 0, bytes = 0, chain = c, flags = fl\<rparr>
              | Some (pk, bt) \<Rightarrow>
                  \<lparr>countersOk = True, packets = pk, bytes = bt, chain = c, flags = fl\<rparr>))"

section \<open>Reading results\<close>

text \<open>What a call returns, without the log.\<close>

definition outcome ::
  "panic + ((Tables \<times> error option) \<times> logRecord list) \<Rightarrow> panic + (Tables \<times> error option)" where
  "outcome x = (case x of Inl pn \<Rightarrow> Inl pn | Inr (res, log) \<Rightarrow> Inr res)"

text \<open>\<open>T[table][chain]\<close> with its presence: \<open>None\<close> when the table or the chain is not
  there.\<close>

definition chainOf :: "Tables \<Rightarrow> string \<Rightarrow> string \<Rightarrow> Chain option" where
  "chainOf T tn cn =
     (case T of
        None \<Rightarrow> None
      | Some ts \<Rightarrow>
          (case ts tn of
             None \<Rightarrow> None
           | Some t \<Rightarrow> (case t of None \<Rightarrow> None | Some m \<Rightarrow> m cn)))"

section \<open>The specification's notions\<close>






section \<open>Facts about the library functions\<close>

lemma TrimPrefix_neq: "(TrimPrefix s pre \<noteq> s) = (HasPrefix s pre \<and> pre \<noteq> [])"
proof (cases "HasPrefix s pre \<and> pre \<noteq> []")
  case True
  then have le: "length pre \<le> length s" and pos: "0 < length pre"
    by (auto simp: HasPrefix_def dest: arg_cong [where f = length])
  have "length s - length pre < length s"
    using le pos by arith
  then have "length (drop (length pre) s) \<noteq> length s"
    by simp
  then have "drop (length pre) s \<noteq> s"
    by (rule contrapos_nn) (rule arg_cong)
  with True show ?thesis
    by (simp add: TrimPrefix_def)
next
  case False
  then show ?thesis
    by (auto simp: TrimPrefix_def)
qed

lemma HasPrefix_Cons: "HasPrefix (c # cs) [d] = (c = d)"
  by (simp add: HasPrefix_def)

lemma HasPrefix_Nil: "HasPrefix [] [d] = False"
  by (simp add: HasPrefix_def)

lemma TrimPrefix_Cons: "TrimPrefix (c # cs) [c] = cs"
  by (simp add: TrimPrefix_def HasPrefix_def)

section \<open>Facts about counter parsing\<close>













section \<open>Facts about the steps of the parser\<close>

lemma flush_closed: "currentTableName p = [] \<Longrightarrow> flush p = p"
  by (simp add: flush_def)

lemma flush_open:
  "currentTableName p \<noteq> [] \<Longrightarrow>
   flush p = p\<lparr>result := Some ((entries (result p))(currentTableName p \<mapsto> currentTable p)),
               currentTableName := [], currentTable := None\<rparr>"
  by (simp add: flush_def)

lemma flush_name: "currentTableName (flush p) = []"
  by (simp add: flush_def)

lemma flush_flush: "flush (flush p) = flush p"
  by (simp add: flush_closed flush_name)

lemma flush_err: "err (flush p) = err p"
  by (simp add: flush_def)

lemma flush_line: "line (flush p) = line p"
  by (simp add: flush_def)

lemma handleLine_blank:
  "TrimSpace raw = [] \<or> HasPrefix (TrimSpace raw) ''#'' \<Longrightarrow>
   handleLine tk p raw = Inr (p\<lparr>line := line p + 1\<rparr>)"
  by (simp add: handleLine_def Let_def)

lemma handleLine_COMMIT:
  "TrimSpace raw = ''COMMIT'' \<Longrightarrow> handleLine tk p raw = Inr (flush (p\<lparr>line := line p + 1\<rparr>))"
  by (simp add: handleLine_def Let_def HasPrefix_def)

lemma handleLine_table:
  "TrimSpace raw = CHR ''*'' # name \<Longrightarrow>
   handleLine tk p raw = Inr ((flush (p\<lparr>line := line p + 1\<rparr>))\<lparr>currentTableName := name\<rparr>)"
  by (simp add: handleLine_def Let_def HasPrefix_def TrimPrefix_def)

lemma handleLine_chain:
  "TrimSpace raw = CHR '':'' # rest \<Longrightarrow>
   handleLine tk p raw = Inr (handleNewChain (p\<lparr>line := line p + 1\<rparr>) (TrimSpace raw))"
  by (simp add: handleLine_def Let_def HasPrefix_def TrimPrefix_def)

lemma handleLine_rule:
  "TrimSpace raw = CHR ''['' # rest \<Longrightarrow>
   handleLine tk p raw = handleRule tk (p\<lparr>line := line p + 1\<rparr>) (TrimSpace raw)"
  by (simp add: handleLine_def Let_def HasPrefix_def TrimPrefix_def)

lemma handleLine_cases:
  "handleLine tk p raw = Inr (p\<lparr>line := line p + 1\<rparr>) \<or>
   handleLine tk p raw = Inr (flush (p\<lparr>line := line p + 1\<rparr>)) \<or>
   handleLine tk p raw =
     Inr ((flush (p\<lparr>line := line p + 1\<rparr>))\<lparr>currentTableName := TrimPrefix (TrimSpace raw) ''*''\<rparr>) \<or>
   handleLine tk p raw = Inr (handleNewChain (p\<lparr>line := line p + 1\<rparr>) (TrimSpace raw)) \<or>
   handleLine tk p raw = handleRule tk (p\<lparr>line := line p + 1\<rparr>) (TrimSpace raw) \<or>
   handleLine tk p raw =
     Inr (p\<lparr>line := line p + 1,
            err := errors_Join [err p, Some (ParseError ''unhandled line'' (line p + 1) (TrimSpace raw))]\<rparr>)"
  by (simp add: handleLine_def Let_def)

lemma reported_Join:
  "reported (errors_Join [e0, Some (ParseError m n t)]) = reported e0 @ [ParseError m n t]"
  by (cases e0) (simp_all add: errors_Join_def reported_def List.map_filter_def)

lemma errors_Join_Some: "errors_Join [e0, Some e] \<noteq> None"
  by (cases e0) (simp_all add: errors_Join_def List.map_filter_def)

section \<open>Rule texts stay distinct\<close>

















section \<open>What a chain header and a rule line do\<close>



lemma handleRule_counters:
  "\<not> countersOk (tk (Fields l)) \<Longrightarrow>
   handleRule tk p l =
     Inr (p\<lparr>err := errors_Join [err p, Some (ParseError ''expected [packets:bytes]'' (line p) l)]\<rparr>)"
  by (simp add: handleRule_def Let_def)

lemma handleRule_target:
  "countersOk (tk (Fields l)) \<Longrightarrow> chain (tk (Fields l)) = [] \<Longrightarrow>
   handleRule tk p l =
     Inr (p\<lparr>err := errors_Join [err p, Some (ParseError ''expected -A chain ...'' (line p) l)]\<rparr>)"
  by (simp add: handleRule_def Let_def)

lemma handleRule_accepted:
  "countersOk (tk (Fields l)) \<Longrightarrow> chain (tk (Fields l)) \<noteq> [] \<Longrightarrow>
   handleRule tk p l = Inr p' \<Longrightarrow> err p' = err p"
  by (auto simp: handleRule_def Let_def split: if_splits option.splits)

lemma handleRule_nil_table:
  "countersOk (tk (Fields l)) \<Longrightarrow> chain (tk (Fields l)) \<noteq> [] \<Longrightarrow> currentTable p = None \<Longrightarrow>
   handleRule tk p l = Inl AssignNilMap"
  by (simp add: handleRule_def Let_def chainAt_def entries_def zeroChain_def)

lemma handleRule_missing_chain:
  "countersOk (tk (Fields l)) \<Longrightarrow> chain (tk (Fields l)) \<noteq> [] \<Longrightarrow> currentTable p = Some m \<Longrightarrow>
   m (chain (tk (Fields l))) = None \<Longrightarrow>
   handleRule tk p l =
     Inr (p\<lparr>currentTable := Some (m(chain (tk (Fields l)) \<mapsto>
       \<lparr>Policy = [], Packets = 0, Bytes = 0,
        Rules = [\<lparr>Rule_Packets = packets (tk (Fields l)), Rule_Bytes = bytes (tk (Fields l)),
                  Rule_Rule = strings_Join (flags (tk (Fields l))) '' ''\<rparr>]\<rparr>))\<rparr>)"
  by (simp add: handleRule_def Let_def chainAt_def entries_def zeroChain_def)

lemma handleRule_errors:
  "handleRule tk p l = Inr p' \<Longrightarrow>
   reported (err p') = reported (err p) \<or>
   reported (err p') = reported (err p) @ [ParseError ''expected [packets:bytes]'' (line p) l] \<or>
   reported (err p') = reported (err p) @ [ParseError ''expected -A chain ...'' (line p) l]"
  by (auto simp: handleRule_def Let_def reported_Join split: if_splits option.splits)



lemma handleNewChain_stores:
  "Fields l = [f0, f1, f2] \<Longrightarrow> parseCounters f2 = Some (pk, bt) \<Longrightarrow>
   handleNewChain p l =
     p\<lparr>currentTable := Some ((entries (currentTable p))(TrimPrefix f0 '':'' \<mapsto>
          \<lparr>Policy = f1, Packets = pk, Bytes = bt, Rules = []\<rparr>))\<rparr>"
  by (simp add: handleNewChain_def Let_def)

lemma handleNewChain_result:
  "result (handleNewChain p l) = result p \<and>
   currentTableName (handleNewChain p l) = currentTableName p"
  by (simp add: handleNewChain_def Let_def split: option.splits)

lemma handleRule_result:
  "handleRule tk p l = Inr p' \<Longrightarrow>
   result p' = result p \<and> currentTableName p' = currentTableName p"
  by (auto simp: handleRule_def Let_def split: if_splits option.splits)

lemma handleLine_no_flush:
  assumes "TrimSpace raw \<noteq> ''COMMIT''" and "\<not> HasPrefix (TrimSpace raw) ''*''"
    and "handleLine tk p raw = Inr p'"
  shows "result p' = result p \<and> currentTableName p' = currentTableName p"
proof -
  from assms(2) have "TrimPrefix (TrimSpace raw) ''*'' = TrimSpace raw"
    by (simp add: TrimPrefix_def)
  with assms(1,3) show ?thesis
    by (auto simp: handleLine_def Let_def handleNewChain_result
        dest: handleRule_result split: if_splits)
qed

lemma final_flush:
  "scan tk parser0 ls = Inr q \<Longrightarrow> err q = None \<Longrightarrow>
   outcome (ParseIptablesSave tk log \<lparr>scanned = ls, scanErr = None\<rparr>) = Inr (result (flush q), None)"
  by (simp add: ParseIptablesSave_def outcome_def Let_def flush_err)

lemma errors_Join_first: "errors_Join [None, Some e] = Some (joinError [e])"
  by (simp add: errors_Join_def List.map_filter_def)

section \<open>Scans that do not panic\<close>

lemma scan_append:
  "scan tk p (xs @ ys) = (case scan tk p xs of Inl pn \<Rightarrow> Inl pn | Inr q \<Rightarrow> scan tk q ys)"
  by (induction xs arbitrary: p) (auto split: sum.splits)

lemma handleNewChain_errors:
  "reported (err (handleNewChain p l)) = reported (err p) \<or>
   reported (err (handleNewChain p l)) = reported (err p) @ [ParseError ''expected 3 fields'' (line p) l] \<or>
   reported (err (handleNewChain p l)) =
     reported (err p) @ [ParseError ''expected [packets:bytes]'' (line p) l]"
  by (auto simp: handleNewChain_def Let_def reported_Join split: option.splits)

lemma handleLine_errors:
  assumes "handleLine tk p raw = Inr p'"
  shows "\<exists>es. reported (err p') = reported (err p) @ es \<and> length es \<le> 1"
proof -
  let ?p = "p\<lparr>line := line p + 1\<rparr>"
  have e: "err ?p = err p"
    by simp
  from handleLine_cases [of tk p raw] assms consider
      "p' = ?p" | "p' = flush ?p"
    | "p' = (flush ?p)\<lparr>currentTableName := TrimPrefix (TrimSpace raw) ''*''\<rparr>"
    | "p' = handleNewChain ?p (TrimSpace raw)"
    | "handleRule tk ?p (TrimSpace raw) = Inr p'"
    | "p' = p\<lparr>line := line p + 1,
            err := errors_Join [err p, Some (ParseError ''unhandled line'' (line p + 1) (TrimSpace raw))]\<rparr>"
    by auto
  then show ?thesis
  proof cases
    case 1
    then show ?thesis by simp
  next
    case 2
    then show ?thesis by (simp add: flush_err)
  next
    case 3
    then show ?thesis by (simp add: flush_err)
  next
    case 4
    with handleNewChain_errors [of ?p "TrimSpace raw"] show ?thesis
      by (auto simp: e)
  next
    case 5
    from handleRule_errors [OF 5] show ?thesis
      by (auto simp: e)
  next
    case 6
    then show ?thesis by (simp add: reported_Join)
  qed
qed

lemma scan_errors:
  "scan tk p ls = Inr p' \<Longrightarrow> \<exists>es. reported (err p') = reported (err p) @ es"
proof (induction ls arbitrary: p)
  case Nil
  then show ?case by simp
next
  case (Cons raw rest)
  from Cons.prems obtain p1 where step: "handleLine tk p raw = Inr p1"
    and rest: "scan tk p1 rest = Inr p'"
    by (auto split: sum.splits)
  from handleLine_errors [OF step] obtain es1 where "reported (err p1) = reported (err p) @ es1"
    by blast
  moreover from Cons.IH [OF rest] obtain es2 where "reported (err p') = reported (err p1) @ es2"
    by blast
  ultimately show ?case
    by simp
qed

lemma errors_Join_eq:
  "errors_Join [e0, Some e] = Some (joinError (case e0 of None \<Rightarrow> [e] | Some x \<Rightarrow> [x, e]))"
  by (cases e0) (simp_all add: errors_Join_def List.map_filter_def)

lemma err_Some_handleLine:
  assumes "handleLine tk p raw = Inr p'" and "err p \<noteq> None"
  shows "err p' \<noteq> None"
proof -
  let ?p = "p\<lparr>line := line p + 1\<rparr>"
  from assms(2) have e: "err ?p \<noteq> None"
    by simp
  from handleLine_cases [of tk p raw] assms(1) consider
      "p' = ?p" | "p' = flush ?p"
    | "p' = (flush ?p)\<lparr>currentTableName := TrimPrefix (TrimSpace raw) ''*''\<rparr>"
    | "p' = handleNewChain ?p (TrimSpace raw)"
    | "handleRule tk ?p (TrimSpace raw) = Inr p'"
    | "p' = p\<lparr>line := line p + 1,
            err := errors_Join [err p, Some (ParseError ''unhandled line'' (line p + 1) (TrimSpace raw))]\<rparr>"
    by auto
  then show ?thesis
  proof cases
    case 1
    with assms(2) show ?thesis by simp
  next
    case 2
    with assms(2) show ?thesis by (simp add: flush_err)
  next
    case 3
    with assms(2) show ?thesis by (simp add: flush_err)
  next
    case 4
    have "err (handleNewChain ?p (TrimSpace raw)) \<noteq> None"
      using e by (simp add: handleNewChain_def Let_def errors_Join_eq split: option.splits)
    with 4 show ?thesis by simp
  next
    case 5
    with e show ?thesis
      by (auto simp: handleRule_def Let_def errors_Join_eq split: if_splits option.splits)
  next
    case 6
    then show ?thesis by (simp add: errors_Join_eq)
  qed
qed

lemma err_Some_scan:
  "scan tk p ls = Inr p' \<Longrightarrow> err p \<noteq> None \<Longrightarrow> err p' \<noteq> None"
proof (induction ls arbitrary: p)
  case Nil
  then show ?case by simp
next
  case (Cons raw rest)
  from Cons.prems obtain p1 where step: "handleLine tk p raw = Inr p1"
    and rest: "scan tk p1 rest = Inr p'"
    by (auto split: sum.splits)
  from step Cons.prems(2) have "err p1 \<noteq> None"
    by (rule err_Some_handleLine)
  with rest show ?case
    by (rule Cons.IH)
qed

text \<open>In a scan that does not panic a line after an error is handled like any other,
  the error stays, and the call returns the aggregate error and no Tables value, also
  when the scanner reports an error of its own.\<close>

lemma parse_error_returned:
  assumes "scan tk parser0 (xs @ raw # ys) = Inr q"
    and "scan tk parser0 xs = Inr p1" and "handleLine tk p1 raw = Inr p2" and "err p2 \<noteq> None"
  shows "scan tk p2 ys = Inr q \<and>
    (\<exists>e. err q = Some e \<and>
       outcome (ParseIptablesSave tk log \<lparr>scanned = xs @ raw # ys, scanErr = se\<rparr>) =
         Inr (None, Some e))"
proof -
  from assms(1,2,3) have rest: "scan tk p2 ys = Inr q"
    by (simp add: scan_append)
  from rest assms(4) have "err q \<noteq> None"
    by (rule err_Some_scan)
  then obtain e where e: "err q = Some e"
    by auto
  with assms(1) have "outcome (ParseIptablesSave tk log \<lparr>scanned = xs @ raw # ys, scanErr = se\<rparr>) =
      Inr (None, Some e)"
    by (simp add: ParseIptablesSave_def outcome_def Let_def flush_err)
  with rest e show ?thesis
    by simp
qed

lemma no_partial_result:
  "outcome (ParseIptablesSave tk log r) = Inr (T, Some e) \<Longrightarrow> T = None"
  by (auto simp: ParseIptablesSave_def outcome_def Let_def split: sum.splits option.splits)

section \<open>Evaluation\<close>

text \<open>The definitions a run on a concrete input unfolds.\<close>

lemmas run_defs =
  ParseIptablesSave_def outcome_def handleLine_def handleRule_def handleNewChain_def flush_def
  parser0_def entries_def chainAt_def zeroChain_def errors_Join_def List.map_filter_def
  TrimSpace_def Fields_def isSpace1_def isSpace2_def isSpace3_def byte_def HasPrefix_def
  TrimPrefix_def parseCounters_def FindStringSubmatch_def isDigit_def ParseUint_def
  cutoff64_def maxUint64_def ruleTokens_def chainOf_def reported_def Let_def

section \<open>Duplicate rules\<close>



section \<open>Errors of a rule line\<close>

text \<open>
  Claim C3, as amended. A rule line reports one error at most. When the tokenizer
  has not resolved the counters, \<open>handleRule\<close> reports \<open>expected [packets:bytes]\<close> for the
  line and returns, whether or not the line has a \<open>-A\<close> pair; the missing target
  \<open>expected -A chain ...\<close> is reported for a line whose counters are resolved and whose
  target chain is empty, and for no other; a line with resolved counters and a target
  chain reports no error. Whatever the line, the errors after it are the errors before
  it, followed by at most one of these two.
\<close>

theorem rule_line_one_error:
  "(\<not> countersOk (tk (Fields l)) \<longrightarrow>
      handleRule tk p l =
        Inr (p\<lparr>err := errors_Join
                        [err p, Some (ParseError ''expected [packets:bytes]'' (line p) l)]\<rparr>) \<and>
      reported (errors_Join [err p, Some (ParseError ''expected [packets:bytes]'' (line p) l)]) =
        reported (err p) @ [ParseError ''expected [packets:bytes]'' (line p) l]) \<and>
   (countersOk (tk (Fields l)) \<and> chain (tk (Fields l)) = [] \<longrightarrow>
      handleRule tk p l =
        Inr (p\<lparr>err := errors_Join
                        [err p, Some (ParseError ''expected -A chain ...'' (line p) l)]\<rparr>) \<and>
      reported (errors_Join [err p, Some (ParseError ''expected -A chain ...'' (line p) l)]) =
        reported (err p) @ [ParseError ''expected -A chain ...'' (line p) l]) \<and>
   (countersOk (tk (Fields l)) \<and> chain (tk (Fields l)) \<noteq> [] \<and> handleRule tk p l = Inr p' \<longrightarrow>
      err p' = err p) \<and>
   (handleRule tk p l = Inr p' \<longrightarrow>
      reported (err p') = reported (err p) \<or>
      reported (err p') = reported (err p) @ [ParseError ''expected [packets:bytes]'' (line p) l] \<or>
      reported (err p') = reported (err p) @ [ParseError ''expected -A chain ...'' (line p) l])"
proof (intro conjI impI)
  assume "\<not> countersOk (tk (Fields l))"
  then show "handleRule tk p l =
      Inr (p\<lparr>err := errors_Join
                      [err p, Some (ParseError ''expected [packets:bytes]'' (line p) l)]\<rparr>)"
    by (rule handleRule_counters)
next
  show "reported (errors_Join [err p, Some (ParseError ''expected [packets:bytes]'' (line p) l)]) =
      reported (err p) @ [ParseError ''expected [packets:bytes]'' (line p) l]"
    by (rule reported_Join)
next
  assume "countersOk (tk (Fields l)) \<and> chain (tk (Fields l)) = []"
  then show "handleRule tk p l =
      Inr (p\<lparr>err := errors_Join
                      [err p, Some (ParseError ''expected -A chain ...'' (line p) l)]\<rparr>)"
    by (intro handleRule_target) simp_all
next
  show "reported (errors_Join [err p, Some (ParseError ''expected -A chain ...'' (line p) l)]) =
      reported (err p) @ [ParseError ''expected -A chain ...'' (line p) l]"
    by (rule reported_Join)
next
  assume "countersOk (tk (Fields l)) \<and> chain (tk (Fields l)) \<noteq> [] \<and> handleRule tk p l = Inr p'"
  then show "err p' = err p"
    by (intro handleRule_accepted [of tk l p p']) simp_all
next
  assume "handleRule tk p l = Inr p'"
  then show "reported (err p') = reported (err p) \<or>
      reported (err p') = reported (err p) @ [ParseError ''expected [packets:bytes]'' (line p) l] \<or>
      reported (err p') = reported (err p) @ [ParseError ''expected -A chain ...'' (line p) l]"
    by (rule handleRule_errors)
qed

theorem rule_line_one_error_witness:
  "\<not> countersOk (ruleTokens (Fields ''[x:y] -j DROP'')) \<and>
   handleRule ruleTokens (parser0\<lparr>line := 1\<rparr>) ''[x:y] -j DROP'' =
     Inr (parser0\<lparr>line := 1,
           err := Some (joinError [ParseError ''expected [packets:bytes]'' 1 ''[x:y] -j DROP''])\<rparr>) \<and>
   countersOk (ruleTokens (Fields ''[1:2] -j DROP'')) \<and>
   chain (ruleTokens (Fields ''[1:2] -j DROP'')) = [] \<and>
   handleRule ruleTokens (parser0\<lparr>line := 1\<rparr>) ''[1:2] -j DROP'' =
     Inr (parser0\<lparr>line := 1,
           err := Some (joinError [ParseError ''expected -A chain ...'' 1 ''[1:2] -j DROP''])\<rparr>) \<and>
   countersOk (ruleTokens (Fields ''[1:2] -A INPUT -j DROP'')) \<and>
   chain (ruleTokens (Fields ''[1:2] -A INPUT -j DROP'')) \<noteq> [] \<and>
   handleRule ruleTokens
     \<lparr>result = None, currentTableName = ''filter'', currentTable = Some Map.empty, line = 2,
       err = Some (joinError [ParseError ''unhandled line'' 1 ''x''])\<rparr>
     ''[1:2] -A INPUT -j DROP'' =
   Inr \<lparr>result = None, currentTableName = ''filter'',
       currentTable = Some [''INPUT'' \<mapsto> \<lparr>Policy = [], Packets = 0, Bytes = 0,
         Rules = [\<lparr>Rule_Packets = 1, Rule_Bytes = 2, Rule_Rule = ''-j DROP''\<rparr>]\<rparr>],
       line = 2, err = Some (joinError [ParseError ''unhandled line'' 1 ''x''])\<rparr> \<and>
   err \<lparr>result = None, currentTableName = ''filter'',
       currentTable = Some [''INPUT'' \<mapsto> \<lparr>Policy = [], Packets = 0, Bytes = 0,
         Rules = [\<lparr>Rule_Packets = 1, Rule_Bytes = 2, Rule_Rule = ''-j DROP''\<rparr>]\<rparr>],
       line = 2, err = Some (joinError [ParseError ''unhandled line'' 1 ''x''])\<rparr> =
     Some (joinError [ParseError ''unhandled line'' 1 ''x''])"
proof -
  let ?p = "parser0\<lparr>line := 1\<rparr>"
  let ?s = "\<lparr>result = None, currentTableName = ''filter'', currentTable = Some Map.empty, line = 2,
       err = Some (joinError [ParseError ''unhandled line'' 1 ''x''])\<rparr>"
  let ?s' = "\<lparr>result = None, currentTableName = ''filter'',
       currentTable = Some [''INPUT'' \<mapsto> \<lparr>Policy = [], Packets = 0, Bytes = 0,
         Rules = [\<lparr>Rule_Packets = 1, Rule_Bytes = 2, Rule_Rule = ''-j DROP''\<rparr>]\<rparr>],
       line = 2, err = Some (joinError [ParseError ''unhandled line'' 1 ''x''])\<rparr>"
  have e: "err ?p = None" and n: "line ?p = 1"
    by (simp_all add: parser0_def)
  have t1: "\<not> countersOk (ruleTokens (Fields ''[x:y] -j DROP''))"
    by (simp add: run_defs)
  have t2: "countersOk (ruleTokens (Fields ''[1:2] -j DROP'')) \<and>
      chain (ruleTokens (Fields ''[1:2] -j DROP'')) = []"
    by (simp add: run_defs)
  have t3: "countersOk (ruleTokens (Fields ''[1:2] -A INPUT -j DROP'')) \<and>
      chain (ruleTokens (Fields ''[1:2] -A INPUT -j DROP'')) \<noteq> [] \<and>
      handleRule ruleTokens ?s ''[1:2] -A INPUT -j DROP'' = Inr ?s'"
    by (simp add: run_defs)
  note r1 = rule_line_one_error [where tk = ruleTokens and l = "''[x:y] -j DROP''" and p = ?p]
  have a: "handleRule ruleTokens ?p ''[x:y] -j DROP'' =
     Inr (?p\<lparr>err := Some (joinError [ParseError ''expected [packets:bytes]'' 1 ''[x:y] -j DROP''])\<rparr>)"
    using r1 [THEN conjunct1, THEN mp, OF t1, THEN conjunct1]
    by (simp only: e n errors_Join_first)
  note r2 = rule_line_one_error [where tk = ruleTokens and l = "''[1:2] -j DROP''" and p = ?p]
  have b: "handleRule ruleTokens ?p ''[1:2] -j DROP'' =
     Inr (?p\<lparr>err := Some (joinError [ParseError ''expected -A chain ...'' 1 ''[1:2] -j DROP''])\<rparr>)"
    using r2 [THEN conjunct2, THEN conjunct1, THEN mp, OF t2, THEN conjunct1]
    by (simp only: e n errors_Join_first)
  note r3 = rule_line_one_error [where tk = ruleTokens and l = "''[1:2] -A INPUT -j DROP''"
      and p = ?s and p' = ?s']
  have c: "err ?s' = err ?s"
    by (rule r3 [THEN conjunct2, THEN conjunct2, THEN conjunct1, THEN mp, OF t3])
  then have c': "err ?s' = Some (joinError [ParseError ''unhandled line'' 1 ''x''])"
    by simp
  from t1 a t2 b t3 c' show ?thesis
    by simp
qed

text \<open>
  Claim C3 as stated fails: the line \<open>[x:y] -j DROP\<close> has a malformed counter token and
  no \<open>-A\<close> pair, and the aggregate error holds the counter error alone.
\<close>

theorem both_errors_counterexample:
  "outcome (ParseIptablesSave ruleTokens []
     \<lparr>scanned = [''*filter'', ''[x:y] -j DROP''], scanErr = None\<rparr>) =
   Inr (None, Some (joinError [ParseError ''expected [packets:bytes]'' 2 ''[x:y] -j DROP'']))"
  by (simp add: run_defs)

section \<open>Table headers\<close>

text \<open>
  Claim C4, as amended. A line that begins with \<open>*\<close> is handled without an error: the
  table open before it, if any, is written into the result under its name, and the
  line's remainder becomes the open table's name. The chain mapping of the new table
  starts empty when a table was open as the header was handled, or when no chain
  mapping was pending.
\<close>

theorem table_header_opens:
  assumes "TrimSpace raw = CHR ''*'' # name"
  shows "\<exists>p'. handleLine tk p raw = Inr p' \<and>
     currentTableName p' = name \<and> line p' = line p + 1 \<and> err p' = err p \<and>
     (currentTableName p \<noteq> [] \<longrightarrow>
        result p' = Some ((entries (result p))(currentTableName p \<mapsto> currentTable p))) \<and>
     (currentTableName p = [] \<longrightarrow> result p' = result p) \<and>
     (currentTableName p \<noteq> [] \<or> currentTable p = None \<longrightarrow> currentTable p' = None)"
proof -
  let ?p' = "(flush (p\<lparr>line := line p + 1\<rparr>))\<lparr>currentTableName := name\<rparr>"
  from assms have "handleLine tk p raw = Inr ?p'"
    by (rule handleLine_table)
  moreover have "currentTableName ?p' = name"
    by simp
  moreover have "line ?p' = line p + 1"
    by (simp add: flush_line)
  moreover have "err ?p' = err p"
    by (simp add: flush_err)
  moreover have "currentTableName p \<noteq> [] \<longrightarrow>
      result ?p' = Some ((entries (result p))(currentTableName p \<mapsto> currentTable p))"
    by (simp add: flush_def)
  moreover have "currentTableName p = [] \<longrightarrow> result ?p' = result p"
    by (simp add: flush_def)
  moreover have "currentTableName p \<noteq> [] \<or> currentTable p = None \<longrightarrow> currentTable ?p' = None"
    by (simp add: flush_def)
  ultimately show ?thesis
    by (intro exI [of _ ?p'] conjI)
qed

theorem table_header_opens_witness:
  "TrimSpace ''*nat'' = CHR ''*'' # ''nat'' \<and>
   (\<exists>p'. handleLine ruleTokens
      \<lparr>result = None, currentTableName = ''filter'',
        currentTable = Some [''INPUT'' \<mapsto> \<lparr>Policy = ''DROP'', Packets = 1, Bytes = 2, Rules = []\<rparr>],
        line = 2, err = None\<rparr> ''*nat'' = Inr p' \<and>
      currentTableName p' = ''nat'' \<and>
      result p' = Some [''filter'' \<mapsto>
        Some [''INPUT'' \<mapsto> \<lparr>Policy = ''DROP'', Packets = 1, Bytes = 2, Rules = []\<rparr>]] \<and>
      currentTable p' = None)"
proof -
  let ?p = "\<lparr>result = None, currentTableName = ''filter'',
        currentTable = Some [''INPUT'' \<mapsto> \<lparr>Policy = ''DROP'', Packets = 1, Bytes = 2, Rules = []\<rparr>],
        line = 2, err = None\<rparr>"
  have trim: "TrimSpace ''*nat'' = CHR ''*'' # ''nat''"
    by (simp add: run_defs)
  have n: "currentTableName ?p \<noteq> []"
    by simp
  from table_header_opens [OF trim, of ruleTokens ?p] obtain p' where
    all: "handleLine ruleTokens ?p ''*nat'' = Inr p' \<and>
     currentTableName p' = ''nat'' \<and> line p' = line ?p + 1 \<and> err p' = err ?p \<and>
     (currentTableName ?p \<noteq> [] \<longrightarrow>
        result p' = Some ((entries (result ?p))(currentTableName ?p \<mapsto> currentTable ?p))) \<and>
     (currentTableName ?p = [] \<longrightarrow> result p' = result ?p) \<and>
     (currentTableName ?p \<noteq> [] \<or> currentTable ?p = None \<longrightarrow> currentTable p' = None)" ..
  note h = all [THEN conjunct1]
  note nm = all [THEN conjunct2, THEN conjunct1]
  note r = all [THEN conjunct2, THEN conjunct2, THEN conjunct2, THEN conjunct2, THEN conjunct1,
      THEN mp, OF n]
  note t = all [THEN conjunct2, THEN conjunct2, THEN conjunct2, THEN conjunct2, THEN conjunct2,
      THEN conjunct2, THEN mp, OF disjI1, OF n]
  from r have r': "result p' = Some [''filter'' \<mapsto>
        Some [''INPUT'' \<mapsto> \<lparr>Policy = ''DROP'', Packets = 1, Bytes = 2, Rules = []\<rparr>]]"
    by (simp add: entries_def)
  from h nm r' t have "handleLine ruleTokens ?p ''*nat'' = Inr p' \<and>
      currentTableName p' = ''nat'' \<and>
      result p' = Some [''filter'' \<mapsto>
        Some [''INPUT'' \<mapsto> \<lparr>Policy = ''DROP'', Packets = 1, Bytes = 2, Rules = []\<rparr>]] \<and>
      currentTable p' = None"
    by (intro conjI)
  then have "\<exists>p'. handleLine ruleTokens ?p ''*nat'' = Inr p' \<and>
      currentTableName p' = ''nat'' \<and>
      result p' = Some [''filter'' \<mapsto>
        Some [''INPUT'' \<mapsto> \<lparr>Policy = ''DROP'', Packets = 1, Bytes = 2, Rules = []\<rparr>]] \<and>
      currentTable p' = None" ..
  with trim show ?thesis ..
qed

text \<open>
  Claim C4 as stated fails: a chain header handled while no table is open stays
  pending, the next table header does not clear it, and the chain is committed under
  the new table's name.
\<close>

theorem table_starts_empty_counterexample:
  "outcome (ParseIptablesSave ruleTokens []
     \<lparr>scanned = ['':INPUT ACCEPT [1:2]'', ''*filter'', ''COMMIT''], scanErr = None\<rparr>) =
   Inr (Some [''filter'' \<mapsto> Some [''INPUT'' \<mapsto>
        \<lparr>Policy = ''ACCEPT'', Packets = 1, Bytes = 2, Rules = []\<rparr>]], None)"
  by (simp add: run_defs)

section \<open>A rule line before any chain header\<close>

text \<open>
  Claim C5. The claim says that a rule line naming a chain that is not in the open
  table never crashes, also when it is the first line of its table that touches a
  chain. On the code it holds when the table's chain mapping is allocated
  (\<open>handleRule_missing_chain\<close>: the zero-valued chain with the rule is stored), and fails
  when it is not (\<open>handleRule_nil_table\<close>): \<open>handleRule\<close> assigns into the \<open>nil\<close> map,
  which \<open>handleNewChain\<close> allocates first and \<open>handleRule\<close> does not. The run below
  panics on its second line.
\<close>

theorem rule_before_chain_panics:
  "ParseIptablesSave ruleTokens []
     \<lparr>scanned = [''*filter'', ''[1:2] -A INPUT -j ACCEPT'', ''COMMIT''], scanErr = None\<rparr> =
   Inl AssignNilMap"
  by (simp add: run_defs)

section \<open>When the table is committed\<close>

text \<open>
  The moments of a flush. A \<open>COMMIT\<close> line and a table header each flush; every other
  line that is handled without a panic leaves the result and the name of the open table
  as they were; and when the loop has consumed the last line, \<open>ParseIptablesSave\<close>
  flushes once more, so that what it returns without an error is the result after that
  flush, with or without a \<open>COMMIT\<close> before. A flush writes the chain mapping of the
  open table under its name and closes the table; with no table open it does nothing,
  hence a second flush in a row does nothing.
\<close>

theorem flush_moments:
  "(TrimSpace raw = ''COMMIT'' \<longrightarrow>
      handleLine tk p raw = Inr (flush (p\<lparr>line := line p + 1\<rparr>))) \<and>
   (TrimSpace raw = CHR ''*'' # name \<longrightarrow>
      handleLine tk p raw = Inr ((flush (p\<lparr>line := line p + 1\<rparr>))\<lparr>currentTableName := name\<rparr>)) \<and>
   (TrimSpace raw \<noteq> ''COMMIT'' \<and> \<not> HasPrefix (TrimSpace raw) ''*'' \<and>
    handleLine tk p raw = Inr p' \<longrightarrow>
      result p' = result p \<and> currentTableName p' = currentTableName p) \<and>
   (scan tk parser0 ls = Inr q \<and> err q = None \<longrightarrow>
      outcome (ParseIptablesSave tk log \<lparr>scanned = ls, scanErr = None\<rparr>) =
        Inr (result (flush q), None)) \<and>
   (currentTableName p \<noteq> [] \<longrightarrow>
      flush p = p\<lparr>result := Some ((entries (result p))(currentTableName p \<mapsto> currentTable p)),
                  currentTableName := [], currentTable := None\<rparr>) \<and>
   (currentTableName p = [] \<longrightarrow> flush p = p) \<and>
   flush (flush p) = flush p"
proof (intro conjI impI)
  assume "TrimSpace raw = ''COMMIT''"
  then show "handleLine tk p raw = Inr (flush (p\<lparr>line := line p + 1\<rparr>))"
    by (rule handleLine_COMMIT)
next
  assume "TrimSpace raw = CHR ''*'' # name"
  then show "handleLine tk p raw =
      Inr ((flush (p\<lparr>line := line p + 1\<rparr>))\<lparr>currentTableName := name\<rparr>)"
    by (rule handleLine_table)
next
  assume a: "TrimSpace raw \<noteq> ''COMMIT'' \<and> \<not> HasPrefix (TrimSpace raw) ''*'' \<and>
    handleLine tk p raw = Inr p'"
  then have "result p' = result p \<and> currentTableName p' = currentTableName p"
    by (intro handleLine_no_flush [of raw tk p p']) simp_all
  then show "result p' = result p" and "currentTableName p' = currentTableName p"
    by simp_all
next
  assume "scan tk parser0 ls = Inr q \<and> err q = None"
  then show "outcome (ParseIptablesSave tk log \<lparr>scanned = ls, scanErr = None\<rparr>) =
      Inr (result (flush q), None)"
    by (intro final_flush) simp_all
next
  assume "currentTableName p \<noteq> []"
  then show "flush p =
      p\<lparr>result := Some ((entries (result p))(currentTableName p \<mapsto> currentTable p)),
        currentTableName := [], currentTable := None\<rparr>"
    by (rule flush_open)
next
  assume "currentTableName p = []"
  then show "flush p = p"
    by (rule flush_closed)
next
  show "flush (flush p) = flush p"
    by (rule flush_flush)
qed

theorem flush_moments_witness:
  "handleLine ruleTokens
     \<lparr>result = None, currentTableName = ''nat'', currentTable = None, line = 1, err = None\<rparr>
     ''COMMIT'' =
   Inr \<lparr>result = Some [''nat'' \<mapsto> None], currentTableName = [], currentTable = None,
        line = 2, err = None\<rparr> \<and>
   handleLine ruleTokens
     \<lparr>result = None, currentTableName = ''nat'', currentTable = None, line = 1, err = None\<rparr>
     ''*filter'' =
   Inr \<lparr>result = Some [''nat'' \<mapsto> None], currentTableName = ''filter'', currentTable = None,
        line = 2, err = None\<rparr> \<and>
   handleLine ruleTokens
     \<lparr>result = None, currentTableName = ''nat'', currentTable = None, line = 1, err = None\<rparr>
     '':OUTPUT ACCEPT [3:4]'' =
   Inr \<lparr>result = None, currentTableName = ''nat'',
        currentTable = Some [''OUTPUT'' \<mapsto> \<lparr>Policy = ''ACCEPT'', Packets = 3, Bytes = 4, Rules = []\<rparr>],
        line = 2, err = None\<rparr> \<and>
   outcome (ParseIptablesSave ruleTokens []
     \<lparr>scanned = [''*nat'', '':OUTPUT ACCEPT [3:4]''], scanErr = None\<rparr>) =
   Inr (Some [''nat'' \<mapsto> Some [''OUTPUT'' \<mapsto>
        \<lparr>Policy = ''ACCEPT'', Packets = 3, Bytes = 4, Rules = []\<rparr>]], None) \<and>
   flush \<lparr>result = Some [''nat'' \<mapsto> None], currentTableName = [], currentTable = None,
        line = 2, err = None\<rparr> =
   \<lparr>result = Some [''nat'' \<mapsto> None], currentTableName = [], currentTable = None,
        line = 2, err = None\<rparr>"
proof -
  let ?p = "\<lparr>result = None, currentTableName = ''nat'', currentTable = None, line = 1, err = None\<rparr>"
  let ?p1 = "\<lparr>result = None, currentTableName = ''nat'', currentTable = None, line = 2, err = None\<rparr>"
  let ?f = "\<lparr>result = Some [''nat'' \<mapsto> None], currentTableName = [], currentTable = None,
        line = 2, err = None\<rparr>"
  let ?c = "\<lparr>Policy = ''ACCEPT'', Packets = 3, Bytes = 4, Rules = []\<rparr>"
  let ?q = "\<lparr>result = None, currentTableName = ''nat'', currentTable = Some [''OUTPUT'' \<mapsto> ?c],
       line = 2, err = None\<rparr>"
  let ?ls = "[''*nat'', '':OUTPUT ACCEPT [3:4]'']"
  have t1: "TrimSpace ''COMMIT'' = ''COMMIT''"
    by (simp add: run_defs)
  have t2: "TrimSpace ''*filter'' = CHR ''*'' # ''filter''"
    by (simp add: run_defs)
  have t3: "TrimSpace '':OUTPUT ACCEPT [3:4]'' \<noteq> ''COMMIT'' \<and>
      \<not> HasPrefix (TrimSpace '':OUTPUT ACCEPT [3:4]'') ''*'' \<and>
      handleLine ruleTokens ?p '':OUTPUT ACCEPT [3:4]'' = Inr ?q"
    by (simp add: run_defs)
  have sc: "scan ruleTokens parser0 ?ls = Inr ?q \<and> err ?q = None"
    by (simp add: run_defs)
  have bump: "?p\<lparr>line := line ?p + 1\<rparr> = ?p1"
    by simp
  have n1: "currentTableName ?p1 \<noteq> []" and n2: "currentTableName ?q \<noteq> []"
    and n3: "currentTableName ?f = []"
    by simp_all
  note fp = flush_moments [where p = ?p1]
  have fl1: "flush ?p1 = ?f"
    using fp [THEN conjunct2, THEN conjunct2, THEN conjunct2, THEN conjunct2, THEN conjunct1,
        THEN mp, OF n1]
    by (simp add: entries_def)
  note fq = flush_moments [where p = ?q]
  have fl2: "flush ?q = \<lparr>result = Some [''nat'' \<mapsto> Some [''OUTPUT'' \<mapsto> ?c]],
      currentTableName = [], currentTable = None, line = 2, err = None\<rparr>"
    using fq [THEN conjunct2, THEN conjunct2, THEN conjunct2, THEN conjunct2, THEN conjunct1,
        THEN mp, OF n2]
    by (simp add: entries_def)
  note ff = flush_moments [where p = ?f]
  have fl3: "flush ?f = ?f"
    by (rule ff [THEN conjunct2, THEN conjunct2, THEN conjunct2, THEN conjunct2, THEN conjunct2,
        THEN conjunct1, THEN mp, OF n3])
  note fa = flush_moments [where raw = "''COMMIT''" and tk = ruleTokens and p = ?p]
  have a: "handleLine ruleTokens ?p ''COMMIT'' = Inr ?f"
    using fa [THEN conjunct1, THEN mp, OF t1] by (simp only: bump fl1)
  note fb = flush_moments [where raw = "''*filter''" and name = "''filter''" and tk = ruleTokens
      and p = ?p]
  have b: "handleLine ruleTokens ?p ''*filter'' = Inr (?f\<lparr>currentTableName := ''filter''\<rparr>)"
    using fb [THEN conjunct2, THEN conjunct1, THEN mp, OF t2] by (simp only: bump fl1)
  note fc = flush_moments [where raw = "'':OUTPUT ACCEPT [3:4]''" and tk = ruleTokens and p = ?p
      and p' = ?q]
  have c: "result ?q = result ?p \<and> currentTableName ?q = currentTableName ?p"
    by (rule fc [THEN conjunct2, THEN conjunct2, THEN conjunct1, THEN mp, OF t3])
  note fd = flush_moments [where tk = ruleTokens and ls = ?ls and q = ?q and log = "[]"]
  have d: "outcome (ParseIptablesSave ruleTokens [] \<lparr>scanned = ?ls, scanErr = None\<rparr>) =
      Inr (Some [''nat'' \<mapsto> Some [''OUTPUT'' \<mapsto> ?c]], None)"
    using fd [THEN conjunct2, THEN conjunct2, THEN conjunct2, THEN conjunct1, THEN mp, OF sc]
    by (simp only: fl2) simp
  from a b t3 d fl3 show ?thesis
    by simp
qed

text \<open>
  Claim C6. The claim says that for every input the chain mapping of an open table is
  committed at a table header, at \<open>COMMIT\<close> and once at the end of the stream. The
  flushes are where the claim puts them (\<open>flush_moments\<close>), but the one at the end of the
  stream is reached only by a scan that does not panic. Below, the table \<open>nat\<close> is open
  when the rule line is assigned into its \<open>nil\<close> chain mapping: the call panics, the
  final flush never runs, and neither \<open>nat\<close> nor the table committed before it is
  returned.
\<close>

theorem open_table_never_committed:
  "ParseIptablesSave ruleTokens []
     \<lparr>scanned = [''*filter'', '':INPUT ACCEPT [0:0]'', ''COMMIT'', ''*nat'',
                 ''[1:2] -A PREROUTING -j DNAT''],
       scanErr = None\<rparr> =
   Inl AssignNilMap"
  by (simp add: run_defs)

section \<open>Counter tokens\<close>




section \<open>Chain headers\<close>

text \<open>
  Claim C8. A line that, trimmed, begins with \<open>:\<close>, has exactly three fields and a
  third field that parses as counters stores, under the first field without its leading
  \<open>:\<close>, a chain with the second field as policy, the parsed counters and no rules. The
  chain replaces what the pending chain mapping held under that name, rules included;
  nothing else of the parser changes but the line number.
\<close>

theorem chain_header_stores:
  "TrimSpace raw = CHR '':'' # rest \<Longrightarrow> Fields (TrimSpace raw) = [f0, f1, f2] \<Longrightarrow>
   parseCounters f2 = Some (pk, bt) \<Longrightarrow>
   handleLine tk p raw =
     Inr (p\<lparr>line := line p + 1,
           currentTable := Some ((entries (currentTable p))(TrimPrefix f0 '':'' \<mapsto>
             \<lparr>Policy = f1, Packets = pk, Bytes = bt, Rules = []\<rparr>))\<rparr>)"
proof -
  assume t: "TrimSpace raw = CHR '':'' # rest" and f: "Fields (TrimSpace raw) = [f0, f1, f2]"
    and c: "parseCounters f2 = Some (pk, bt)"
  from t have "handleLine tk p raw = Inr (handleNewChain (p\<lparr>line := line p + 1\<rparr>) (TrimSpace raw))"
    by (rule handleLine_chain)
  also from f c have "handleNewChain (p\<lparr>line := line p + 1\<rparr>) (TrimSpace raw) =
      (p\<lparr>line := line p + 1\<rparr>)\<lparr>currentTable :=
        Some ((entries (currentTable (p\<lparr>line := line p + 1\<rparr>)))(TrimPrefix f0 '':'' \<mapsto>
          \<lparr>Policy = f1, Packets = pk, Bytes = bt, Rules = []\<rparr>))\<rparr>"
    by (rule handleNewChain_stores)
  finally show ?thesis
    by simp
qed

theorem chain_header_stores_witness:
  "TrimSpace '' :INPUT DROP [7:8]'' = CHR '':'' # ''INPUT DROP [7:8]'' \<and>
   Fields '':INPUT DROP [7:8]'' = ['':INPUT'', ''DROP'', ''[7:8]''] \<and>
   parseCounters ''[7:8]'' = Some (7, 8) \<and>
   handleLine ruleTokens
     \<lparr>result = None, currentTableName = ''filter'',
       currentTable = Some [''INPUT'' \<mapsto> \<lparr>Policy = ''ACCEPT'', Packets = 10, Bytes = 500,
         Rules = [\<lparr>Rule_Packets = 10, Rule_Bytes = 500, Rule_Rule = ''-j ACCEPT''\<rparr>]\<rparr>],
       line = 3, err = None\<rparr>
     '' :INPUT DROP [7:8]'' =
   Inr \<lparr>result = None, currentTableName = ''filter'',
       currentTable = Some [''INPUT'' \<mapsto> \<lparr>Policy = ''DROP'', Packets = 7, Bytes = 8, Rules = []\<rparr>],
       line = 4, err = None\<rparr>"
proof -
  let ?c = "\<lparr>Policy = ''ACCEPT'', Packets = 10, Bytes = 500,
         Rules = [\<lparr>Rule_Packets = 10, Rule_Bytes = 500, Rule_Rule = ''-j ACCEPT''\<rparr>]\<rparr>"
  let ?p = "\<lparr>result = None, currentTableName = ''filter'', currentTable = Some [''INPUT'' \<mapsto> ?c],
       line = 3, err = None\<rparr>"
  have t: "TrimSpace '' :INPUT DROP [7:8]'' = CHR '':'' # ''INPUT DROP [7:8]''"
    by (simp add: run_defs)
  have f: "Fields '':INPUT DROP [7:8]'' = ['':INPUT'', ''DROP'', ''[7:8]'']"
    by (simp add: run_defs)
  have f': "Fields (TrimSpace '' :INPUT DROP [7:8]'') = ['':INPUT'', ''DROP'', ''[7:8]'']"
    using f by (simp only: t)
  have c: "parseCounters ''[7:8]'' = Some (7, 8)"
    by (simp add: run_defs)
  have "handleLine ruleTokens ?p '' :INPUT DROP [7:8]'' =
     Inr (?p\<lparr>line := line ?p + 1,
           currentTable := Some ((entries (currentTable ?p))(TrimPrefix '':INPUT'' '':'' \<mapsto>
             \<lparr>Policy = ''DROP'', Packets = 7, Bytes = 8, Rules = []\<rparr>))\<rparr>)"
    by (rule chain_header_stores [OF t f' c])
  then have "handleLine ruleTokens ?p '' :INPUT DROP [7:8]'' =
     Inr \<lparr>result = None, currentTableName = ''filter'',
       currentTable = Some [''INPUT'' \<mapsto> \<lparr>Policy = ''DROP'', Packets = 7, Bytes = 8, Rules = []\<rparr>],
       line = 4, err = None\<rparr>"
    by (simp add: entries_def TrimPrefix_def HasPrefix_def)
  with t f c show ?thesis
    by simp
qed

section \<open>Errors and the end of the scan\<close>

text \<open>
  Claim C1. The claim says that whenever a line produces a parse error the call
  returns the aggregate error and no Tables value, every line having been handled. In
  a scan that does not panic this holds (\<open>parse_error_returned\<close>, \<open>scan_errors\<close>,
  \<open>no_partial_result\<close>). The code breaks it where a rule line follows in a table that has
  no chain header yet: the assignment into the \<open>nil\<close> chain mapping in \<open>handleRule\<close>
  panics, the error of line 2 below is never returned and line 4 is never handled.
\<close>

theorem error_then_panic:
  "ParseIptablesSave ruleTokens []
     \<lparr>scanned = [''*filter'', ''garbage'', ''[1:2] -A INPUT -j ACCEPT'', ''COMMIT''],
       scanErr = None\<rparr> =
   Inl AssignNilMap"
  by (simp add: run_defs)

text \<open>
  Claim C10. The claim says that a stream with a malformed line that ends in a read
  error yields the aggregate parse error. The parser's error is indeed checked before
  the scanner's (\<open>parse_error_returned\<close> holds for every \<open>scanErr\<close>), but the call
  returns neither error when the scan panics on the way: below, line 2 is malformed,
  the rule line 5 is assigned into the \<open>nil\<close> chain mapping of the table \<open>nat\<close>, and the
  scanner's error is never looked at.
\<close>

theorem error_read_failure_panic:
  "ParseIptablesSave ruleTokens []
     \<lparr>scanned = [''*filter'', '':INPUT ACCEPT'', ''COMMIT'', ''*nat'', ''[1:2] -A PREROUTING -j ACCEPT''],
       scanErr = Some (ReadError ''unexpected EOF'')\<rparr> =
   Inl AssignNilMap"
  by (simp add: run_defs)

end
